theory Spec2Isabelle
  imports Main
begin

section \<open>Data model\<close>

text \<open>
  The client of the ticket application: the Request Gateway (the axios instance of
  \<^verbatim>\<open>frontend/src/api/client.ts\<close> with its two interceptors), the Notification
  Channel (class \<^verbatim>\<open>NotificationSocket\<close> of the same file) and the Session Store
  (\<^verbatim>\<open>useAuthStore\<close> of \<^verbatim>\<open>frontend/src/hooks/useAuth.ts\<close>).

  The program runs on one thread. Every function below is one run of a source function from
  its first statement to its last, with the answers of the server given as arguments; no
  other handler runs between the awaits of an \<^verbatim>\<open>async\<close> function.
\<close>

subsection \<open>Interfaces of client.ts\<close>

datatype Role = Admin | Executor | Customer

record User =
  user_id :: int
  email :: string
  full_name :: string
  role :: Role
  is_active :: bool
  created_at :: string

record LoginRequest =
  username :: string
  password :: string

record LoginResponse =
  access_token :: string
  token_type :: string

subsection \<open>The platform: sockets, alerts, console, storage\<close>

text \<open>The four values of \<^verbatim>\<open>WebSocket.readyState\<close>.\<close>

datatype readyState = CONNECTING | OPEN | CLOSING | CLOSED

text \<open>
  The address \<^verbatim>\<open>${wsProtocol}//${window.location.host}/api/tickets/ws/${this.userId}\<close>
  is kept by its three holes: whether the protocol is \<^verbatim>\<open>wss:\<close>, the host, and the
  user id (\<open>None\<close> is the \<^verbatim>\<open>null\<close> of a channel that was never connected).
\<close>

record WebSocket =
  url_wss :: bool
  url_host :: string
  url_user :: "int option"
  readyState :: readyState

text \<open>
  The texts of the alerts are fixed literals of the source; each constructor stands for one
  of them, with the interpolated value as its argument:
  \<^item> \<open>SessionExpired\<close>, \<open>NoPermission\<close>, \<open>ServerError\<close>, \<open>NetworkError\<close>: the four
    alerts of the response interceptor (client.ts, lines 110, 112, 114, 116);
  \<^item> \<open>Welcome\<close> (with \<^verbatim>\<open>user.full_name\<close>), \<open>InvalidCredentials\<close>, \<open>LoginFailed\<close>,
    \<open>Goodbye\<close>: the alerts of \<^verbatim>\<open>login\<close> and \<^verbatim>\<open>logout\<close>
    (useAuth.ts, lines 44, 51, 53, 71);
  \<^item> \<open>TicketCreated\<close>, \<open>TicketAssigned\<close>, \<open>TicketStatusChanged\<close>, \<open>TicketUpdated\<close>
    (with the printed \<^verbatim>\<open>ticket.title\<close>): the four templates of
    \<^verbatim>\<open>handleMessage\<close> (client.ts, lines 283, 286, 289, 292).
\<close>

datatype message =
    SessionExpired | NoPermission | ServerError | NetworkError
  | Welcome string | InvalidCredentials | LoginFailed | Goodbye
  | TicketCreated string | TicketAssigned string | TicketStatusChanged string
  | TicketUpdated string

datatype toast_kind = toast_success | toast_error

text \<open>The lines written to the console by the Notification Channel.\<close>

datatype log =
    LogOpened | LogParseError | LogClosed | LogSocketError | LogCreateError
  | LogMaxAttempts | LogReconnect nat

datatype http_method = GET | POST | PUT | DELETE

subsection \<open>The Session Store's state\<close>

record AuthState =
  user :: "User option"
  isLoading :: bool
  isAuthenticated :: bool

subsection \<open>The Notification Channel's fields\<close>

text \<open>
  \<open>ws\<close> is the reference to the held socket: an index into the sockets of the page.
  The two other private fields of the class, \<^verbatim>\<open>reconnectInterval\<close> and
  \<^verbatim>\<open>maxReconnectAttempts\<close>, are initialised once and never assigned: they are the
  constants below.
\<close>

record NotificationSocket =
  ws :: "nat option"
  userId :: "int option"
  reconnectAttempts :: nat

definition reconnectInterval :: nat where
  "reconnectInterval = 5000"

definition maxReconnectAttempts :: nat where
  "maxReconnectAttempts = 10"

subsection \<open>What the program does to the outside, in order\<close>

datatype effect =
    Toast toast_kind message
  | Console log
  | Navigate string
  | StorageSet string
  | StorageRemove
  | Request http_method string "string option" "(string \<times> string) list"
  | StoreSet AuthState
  | WsNew nat
  | WsClose nat
  | WsSend nat string

subsection \<open>The page\<close>

text \<open>
  \<^item> \<open>localStorage\<close>: the value under the key \<^verbatim>\<open>access_token\<close>, the only key used;
  \<^item> \<open>https\<close>, \<open>host\<close>: \<^verbatim>\<open>window.location.protocol === 'https:'\<close> and
    \<^verbatim>\<open>window.location.host\<close>;
  \<^item> \<open>navigation\<close>: the last value assigned to \<^verbatim>\<open>window.location.href\<close> since the
    page was loaded;
  \<^item> \<open>ws_ctor_throws\<close>: whether \<^verbatim>\<open>new WebSocket(url)\<close> throws on this page;
  \<^item> \<open>auth\<close>: the state of \<^verbatim>\<open>useAuthStore\<close>;
  \<^item> \<open>notificationSocket\<close>: the exported instance of the class;
  \<^item> \<open>sockets\<close>: every socket created since the page was loaded, by creation order;
  \<^item> \<open>timers\<close>: the due times (milliseconds) of the pending \<^verbatim>\<open>setTimeout\<close> calls of
    \<^verbatim>\<open>attemptReconnect\<close>;
  \<^item> \<open>heartbeats\<close>: the number of running \<^verbatim>\<open>setInterval\<close> timers;
  \<^item> \<open>clock\<close>: the time in milliseconds;
  \<^item> \<open>trace\<close>: the effects so far.
\<close>

record world =
  localStorage :: "string option"
  https :: bool
  host :: string
  navigation :: "string option"
  ws_ctor_throws :: bool
  auth :: AuthState
  notificationSocket :: NotificationSocket
  sockets :: "WebSocket list"
  timers :: "nat list"
  heartbeats :: nat
  clock :: nat
  trace :: "effect list"

definition emit :: "effect \<Rightarrow> world \<Rightarrow> world" where
  "emit e w = w\<lparr>trace := trace w @ [e]\<rparr>"

definition toast :: "toast_kind \<Rightarrow> message \<Rightarrow> world \<Rightarrow> world" where
  "toast k m w = emit (Toast k m) w"

definition console :: "log \<Rightarrow> world \<Rightarrow> world" where
  "console l w = emit (Console l) w"

definition removeItem :: "world \<Rightarrow> world" where
  "removeItem w = emit StorageRemove (w\<lparr>localStorage := None\<rparr>)"

definition setItem :: "string \<Rightarrow> world \<Rightarrow> world" where
  "setItem v w = emit (StorageSet v) (w\<lparr>localStorage := Some v\<rparr>)"

text \<open>\<^verbatim>\<open>window.location.href = target\<close>.\<close>

definition set_href :: "string \<Rightarrow> world \<Rightarrow> world" where
  "set_href target w = emit (Navigate target) (w\<lparr>navigation := Some target\<rparr>)"

text \<open>The alerts among a list of effects, in order.\<close>

fun toasts_of :: "effect list \<Rightarrow> (toast_kind \<times> message) list" where
  "toasts_of [] = []"
| "toasts_of (Toast k m # es) = (k, m) # toasts_of es"
| "toasts_of (_ # es) = toasts_of es"

section \<open>Request Gateway\<close>

text \<open>An answer of the server: a response that axios resolves, or an error with
  \<^verbatim>\<open>error.response?.status\<close> (\<open>None\<close> when no response was received).\<close>

datatype 'a response = Fulfilled 'a | Rejected "nat option"

datatype exn = AxiosError "nat option" | TypeError | SyntaxError

text \<open>The request interceptor (lines 87-98): the header it attaches. An empty token is
  falsy and attaches nothing.\<close>

definition request_interceptor :: "world \<Rightarrow> string option" where
  "request_interceptor w =
     (case localStorage w of
        None \<Rightarrow> None
      | Some token \<Rightarrow> if token = [] then None else Some (''Bearer '' @ token))"

text \<open>The error branch of the response interceptor (lines 105-119), before it rejects.\<close>

definition response_error :: "nat option \<Rightarrow> world \<Rightarrow> world" where
  "response_error status w =
     (if status = Some 401 then
        toast toast_error SessionExpired (set_href ''/login'' (removeItem w))
      else if status = Some 403 then toast toast_error NoPermission w
      else if (case status of None \<Rightarrow> False | Some s \<Rightarrow> s \<noteq> 0 \<and> 500 \<le> s) then
        toast toast_error ServerError w
      else if status = None then toast toast_error NetworkError w
      else w)"

text \<open>One call through the axios instance: the request goes out with the header, and the
  answer passes the response interceptor, which returns the response or rejects with the
  error.\<close>

definition api_request ::
  "http_method \<Rightarrow> string \<Rightarrow> (string \<times> string) list \<Rightarrow> 'a response \<Rightarrow> world \<Rightarrow> (exn + 'a) \<times> world"
where
  "api_request m path body r w =
     (let w1 = emit (Request m path (request_interceptor w) body) w
      in case r of
           Fulfilled d \<Rightarrow> (Inr d, w1)
         | Rejected status \<Rightarrow> (Inl (AxiosError status), response_error status w1))"

definition authAPI_login ::
  "LoginRequest \<Rightarrow> LoginResponse response \<Rightarrow> world \<Rightarrow> (exn + LoginResponse) \<times> world"
where
  "authAPI_login credentials r w =
     api_request POST ''/api/auth/login''
       [(''username'', username credentials), (''password'', password credentials)] r w"

definition authAPI_getCurrentUser :: "User response \<Rightarrow> world \<Rightarrow> (exn + User) \<times> world" where
  "authAPI_getCurrentUser r w = api_request GET ''/api/auth/me'' [] r w"

section \<open>Notification Channel\<close>

text \<open>\<^verbatim>\<open>this.ws?.readyState === WebSocket.OPEN\<close>.\<close>

definition held_open :: "world \<Rightarrow> bool" where
  "held_open w =
     (case ws (notificationSocket w) of
        None \<Rightarrow> False
      | Some i \<Rightarrow> i < length (sockets w) \<and> readyState (sockets w ! i) = OPEN)"

definition attemptReconnect :: "world \<Rightarrow> world" where
  "attemptReconnect w =
     (if maxReconnectAttempts \<le> reconnectAttempts (notificationSocket w) then
        console LogMaxAttempts w
      else
        (let n = reconnectAttempts (notificationSocket w) + 1;
             w1 = w\<lparr>notificationSocket := (notificationSocket w)\<lparr>reconnectAttempts := n\<rparr>\<rparr>;
             w2 = console (LogReconnect n) w1
         in w2\<lparr>timers := timers w2 @ [clock w2 + reconnectInterval]\<rparr>))"

text \<open>
  \<^verbatim>\<open>createConnection\<close> (lines 229-273). The four handlers it installs are the same for
  every socket and act on the one instance; they are the functions \<open>onopen\<close>,
  \<open>onmessage\<close>, \<open>onclose\<close> and \<open>onerror\<close> below.
\<close>

definition createConnection :: "world \<Rightarrow> world" where
  "createConnection w =
     (if held_open w then w
      else if ws_ctor_throws w then attemptReconnect (console LogCreateError w)
      else
        (let i = length (sockets w);
             s = \<lparr>url_wss = https w, url_host = host w,
                  url_user = userId (notificationSocket w), readyState = CONNECTING\<rparr>
         in emit (WsNew i)
              (w\<lparr>sockets := sockets w @ [s],
                 notificationSocket := (notificationSocket w)\<lparr>ws := Some i\<rparr>\<rparr>)))"

definition connect :: "int \<Rightarrow> world \<Rightarrow> world" where
  "connect uid w =
     createConnection
       (w\<lparr>notificationSocket :=
            (notificationSocket w)\<lparr>userId := Some uid, reconnectAttempts := 0\<rparr>\<rparr>)"

text \<open>\<^verbatim>\<open>WebSocket.close()\<close>: a socket that is connecting or open starts closing; its close
  event comes later. On a socket that is closing or closed the call does nothing.\<close>

definition ws_close :: "nat \<Rightarrow> world \<Rightarrow> world" where
  "ws_close i w =
     (if i < length (sockets w) \<and> readyState (sockets w ! i) \<in> {CONNECTING, OPEN} then
        emit (WsClose i) (w\<lparr>sockets := (sockets w)[i := (sockets w ! i)\<lparr>readyState := CLOSING\<rparr>]\<rparr>)
      else emit (WsClose i) w)"

definition disconnect :: "world \<Rightarrow> world" where
  "disconnect w =
     (case ws (notificationSocket w) of
        None \<Rightarrow> w
      | Some i \<Rightarrow>
          (let w1 = ws_close i w
           in w1\<lparr>notificationSocket := (notificationSocket w1)\<lparr>ws := None\<rparr>\<rparr>))"

definition onopen :: "world \<Rightarrow> world" where
  "onopen w =
     (let w1 = console LogOpened w
      in w1\<lparr>notificationSocket := (notificationSocket w1)\<lparr>reconnectAttempts := 0\<rparr>,
            heartbeats := heartbeats w1 + 1\<rparr>)"

text \<open>One run of the callback of \<^verbatim>\<open>setInterval\<close> (lines 245-249).\<close>

definition heartbeat :: "world \<Rightarrow> world" where
  "heartbeat w =
     (case ws (notificationSocket w) of
        None \<Rightarrow> w
      | Some i \<Rightarrow> if held_open w then emit (WsSend i ''ping'') w else w)"

definition onclose :: "world \<Rightarrow> world" where
  "onclose w = attemptReconnect (console LogClosed w)"

definition onerror :: "world \<Rightarrow> world" where
  "onerror w = console LogSocketError w"

section \<open>Session Store\<close>

text \<open>\<^verbatim>\<open>set(partial)\<close> of the store merges the given fields into the state.\<close>

definition set_state :: "(AuthState \<Rightarrow> AuthState) \<Rightarrow> world \<Rightarrow> world" where
  "set_state f w = emit (StoreSet (f (auth w))) (w\<lparr>auth := f (auth w)\<rparr>)"

text \<open>The \<^verbatim>\<open>catch\<close> block of \<^verbatim>\<open>login\<close> (lines 46-57).\<close>

definition login_catch :: "exn \<Rightarrow> world \<Rightarrow> (exn + unit) \<times> world" where
  "login_catch e w =
     (let w1 = set_state (\<lambda>s. s\<lparr>isLoading := False\<rparr>) w;
          w2 = (if e = AxiosError (Some 401) then toast toast_error InvalidCredentials w1
                else toast toast_error LoginFailed w1)
      in (Inl e, w2))"

text \<open>\<^verbatim>\<open>login\<close> (lines 22-58), with the answers to the token exchange and to the
  Identity fetch. \<open>Inl e\<close> is the error thrown to the caller.\<close>

definition login ::
  "LoginRequest \<Rightarrow> LoginResponse response \<Rightarrow> User response \<Rightarrow> world \<Rightarrow> (exn + unit) \<times> world"
where
  "login credentials r_login r_me w =
     (let w1 = set_state (\<lambda>s. s\<lparr>isLoading := True\<rparr>) w
      in case authAPI_login credentials r_login w1 of
           (Inl e, w2) \<Rightarrow> login_catch e w2
         | (Inr loginResponse, w2) \<Rightarrow>
             (let w3 = setItem (access_token loginResponse) w2
              in case authAPI_getCurrentUser r_me w3 of
                   (Inl e, w4) \<Rightarrow> login_catch e w4
                 | (Inr u, w4) \<Rightarrow>
                     (let w5 = set_state
                                 (\<lambda>s. s\<lparr>user := Some u, isAuthenticated := True,
                                         isLoading := False\<rparr>) w4;
                          w6 = connect (user_id u) w5;
                          w7 = toast toast_success (Welcome (full_name u)) w6
                      in (Inr (), w7))))"

text \<open>\<^verbatim>\<open>logout\<close> (lines 60-75).\<close>

definition logout :: "world \<Rightarrow> world" where
  "logout w =
     (let w1 = removeItem w;
          w2 = disconnect w1;
          w3 = set_state (\<lambda>s. s\<lparr>user := None, isAuthenticated := False, isLoading := False\<rparr>) w2;
          w4 = toast toast_success Goodbye w3
      in set_href ''/login'' w4)"

text \<open>\<^verbatim>\<open>initializeAuth\<close> (lines 77-107). The function catches every error: it returns
  the state only. A token that is absent or empty is falsy.\<close>

definition initializeAuth :: "User response \<Rightarrow> world \<Rightarrow> world" where
  "initializeAuth r_me w =
     (if localStorage w = None \<or> localStorage w = Some [] then
        set_state (\<lambda>s. s\<lparr>isLoading := False, isAuthenticated := False\<rparr>) w
      else
        (case authAPI_getCurrentUser r_me w of
           (Inr u, w1) \<Rightarrow>
             (let w2 = set_state
                         (\<lambda>s. s\<lparr>user := Some u, isAuthenticated := True,
                                 isLoading := False\<rparr>) w1
              in connect (user_id u) w2)
         | (Inl e, w1) \<Rightarrow>
             (let w2 = removeItem w1
              in set_state
                   (\<lambda>s. s\<lparr>user := None, isAuthenticated := False, isLoading := False\<rparr>) w2)))"

definition setUser :: "User option \<Rightarrow> world \<Rightarrow> world" where
  "setUser u w = set_state (\<lambda>s. s\<lparr>user := u, isAuthenticated := (u \<noteq> None)\<rparr>) w"

section \<open>Inbound frames\<close>

text \<open>
  A value that \<^verbatim>\<open>JSON.parse\<close> returns. A number is kept as the text that ToString
  gives for it; the list of an object holds each own property once.
\<close>

datatype json =
    JNull | JBool bool | JNum string | JStr string
  | JArr "json list" | JObj "(string \<times> json) list"

text \<open>What an expression of \<^verbatim>\<open>handleMessage\<close> evaluates to: a value of the frame, or
  \<^verbatim>\<open>undefined\<close>.\<close>

datatype jsval = Undefined | Value json

text \<open>
  Reading a property, for the four names that \<^verbatim>\<open>handleMessage\<close> reads
  (\<^verbatim>\<open>type\<close>, \<^verbatim>\<open>action\<close>, \<^verbatim>\<open>ticket\<close>, \<^verbatim>\<open>title\<close>): no prototype of a parsed
  value has one of them, so only an own property of an object gives a value. Reading a
  property of \<^verbatim>\<open>null\<close> or \<^verbatim>\<open>undefined\<close> throws.
\<close>

fun get_field :: "jsval \<Rightarrow> string \<Rightarrow> exn + jsval" where
  "get_field Undefined k = Inl TypeError"
| "get_field (Value JNull) k = Inl TypeError"
| "get_field (Value (JObj kvs)) k =
     Inr (case map_of kvs k of None \<Rightarrow> Undefined | Some v \<Rightarrow> Value v)"
| "get_field (Value _) k = Inr Undefined"

text \<open>
  ToString of a parsed value, as a template literal applies it. An array is joined with
  commas, a \<^verbatim>\<open>null\<close> element printing as the empty text. An object prints as
  \<^verbatim>\<open>[object Object]\<close>, unless it has an own property \<^verbatim>\<open>toString\<close>: that one is not
  callable, and the conversion throws.
\<close>

fun json_to_string :: "json \<Rightarrow> exn + string"
  and elements_to_string :: "json list \<Rightarrow> exn + string"
where
  "json_to_string JNull = Inr ''null''"
| "json_to_string (JBool b) = Inr (if b then ''true'' else ''false'')"
| "json_to_string (JNum n) = Inr n"
| "json_to_string (JStr s) = Inr s"
| "json_to_string (JArr xs) = elements_to_string xs"
| "json_to_string (JObj kvs) =
     (if map_of kvs ''toString'' = None then Inr ''[object Object]'' else Inl TypeError)"
| "elements_to_string [] = Inr []"
| "elements_to_string (x # xs) =
     (case (case x of JNull \<Rightarrow> Inr [] | _ \<Rightarrow> json_to_string x) of
        Inl e \<Rightarrow> Inl e
      | Inr s \<Rightarrow>
          (case xs of
             [] \<Rightarrow> Inr s
           | _ # _ \<Rightarrow>
               (case elements_to_string xs of
                  Inl e \<Rightarrow> Inl e
                | Inr rest \<Rightarrow> Inr (s @ '','' @ rest))))"

text \<open>\<^verbatim>\<open>${ticket.title}\<close>.\<close>

definition ticket_title :: "jsval \<Rightarrow> exn + string" where
  "ticket_title ticket =
     (case get_field ticket ''title'' of
        Inl e \<Rightarrow> Inl e
      | Inr Undefined \<Rightarrow> Inr ''undefined''
      | Inr (Value v) \<Rightarrow> json_to_string v)"

text \<open>The \<^verbatim>\<open>switch\<close> of \<^verbatim>\<open>handleMessage\<close> (lines 281-293).\<close>

definition ticket_message :: "jsval \<Rightarrow> jsval \<Rightarrow> exn + message" where
  "ticket_message action ticket =
     (if action = Value (JStr ''created'') then
        (case ticket_title ticket of Inl e \<Rightarrow> Inl e | Inr t \<Rightarrow> Inr (TicketCreated t))
      else if action = Value (JStr ''assigned'') then
        (case ticket_title ticket of Inl e \<Rightarrow> Inl e | Inr t \<Rightarrow> Inr (TicketAssigned t))
      else if action = Value (JStr ''status_changed'') then
        (case ticket_title ticket of Inl e \<Rightarrow> Inl e | Inr t \<Rightarrow> Inr (TicketStatusChanged t))
      else
        (case ticket_title ticket of Inl e \<Rightarrow> Inl e | Inr t \<Rightarrow> Inr (TicketUpdated t)))"

text \<open>\<^verbatim>\<open>handleMessage\<close> (lines 275-300); \<open>Inl e\<close> is the exception it throws. The alert is
  shown with the fixed options of line 295 (5000 milliseconds, top right).\<close>

definition handleMessage :: "json \<Rightarrow> world \<Rightarrow> exn + world" where
  "handleMessage data w =
     (case get_field (Value data) ''type'' of
        Inl e \<Rightarrow> Inl e
      | Inr t \<Rightarrow>
          if t = Value (JStr ''ticket_updated'') then
            (case get_field (Value data) ''action'' of
               Inl e \<Rightarrow> Inl e
             | Inr action \<Rightarrow>
                 (case get_field (Value data) ''ticket'' of
                    Inl e \<Rightarrow> Inl e
                  | Inr ticket \<Rightarrow>
                      (case ticket_message action ticket of
                         Inl e \<Rightarrow> Inl e
                       | Inr m \<Rightarrow> Inr (toast toast_success m w))))
          else Inr w)"

text \<open>
  The \<^verbatim>\<open>onmessage\<close> handler (lines 252-259). \<open>JSON_parse\<close> is the platform's
  \<^verbatim>\<open>JSON.parse\<close>: \<open>None\<close> where it throws a SyntaxError. The result is \<open>Inl e\<close> when
  an exception leaves the handler.
\<close>

definition onmessage :: "(string \<Rightarrow> json option) \<Rightarrow> string \<Rightarrow> world \<Rightarrow> exn + world" where
  "onmessage JSON_parse event_data w =
     (case (case JSON_parse event_data of
              None \<Rightarrow> Inl SyntaxError
            | Some data \<Rightarrow> handleMessage data w) of
        Inr w1 \<Rightarrow> Inr w1
      | Inl e \<Rightarrow> Inr (console LogParseError w))"

section \<open>Events\<close>

text \<open>
  What can happen to the channel: a call of one of its two public methods, an event of one
  of its sockets, a timer that fires, and time that passes. \<open>step\<close> is \<open>None\<close> when the
  event cannot happen in the state: a socket opens once, from connecting; it closes once;
  it receives frames while open; a timeout fires once, not before it is due.
\<close>

datatype event =
    Connect int | Disconnect
  | SockOpen nat | SockMessage nat string | SockError nat | SockClose nat
  | TimerFire nat | Heartbeat | Advance nat

definition set_readyState :: "nat \<Rightarrow> readyState \<Rightarrow> world \<Rightarrow> world" where
  "set_readyState i st w = w\<lparr>sockets := (sockets w)[i := (sockets w ! i)\<lparr>readyState := st\<rparr>]\<rparr>"

fun step :: "(string \<Rightarrow> json option) \<Rightarrow> event \<Rightarrow> world \<Rightarrow> world option" where
  "step P (Connect uid) w = Some (connect uid w)"
| "step P Disconnect w = Some (disconnect w)"
| "step P (SockOpen i) w =
     (if i < length (sockets w) \<and> readyState (sockets w ! i) = CONNECTING
      then Some (onopen (set_readyState i OPEN w)) else None)"
| "step P (SockMessage i d) w =
     (if i < length (sockets w) \<and> readyState (sockets w ! i) = OPEN
      then (case onmessage P d w of Inr w1 \<Rightarrow> Some w1 | Inl e \<Rightarrow> Some w) else None)"
| "step P (SockError i) w = (if i < length (sockets w) then Some (onerror w) else None)"
| "step P (SockClose i) w =
     (if i < length (sockets w) \<and> readyState (sockets w ! i) \<noteq> CLOSED
      then Some (onclose (set_readyState i CLOSED w)) else None)"
| "step P (TimerFire k) w =
     (if k < length (timers w) \<and> timers w ! k \<le> clock w
      then Some (createConnection (w\<lparr>timers := take k (timers w) @ drop (Suc k) (timers w)\<rparr>))
      else None)"
| "step P Heartbeat w = (if 0 < heartbeats w then Some (heartbeat w) else None)"
| "step P (Advance d) w = Some (w\<lparr>clock := clock w + d\<rparr>)"

fun run :: "(string \<Rightarrow> json option) \<Rightarrow> event list \<Rightarrow> world \<Rightarrow> world option" where
  "run P [] w = Some w"
| "run P (e # es) w = (case step P e w of None \<Rightarrow> None | Some w1 \<Rightarrow> run P es w1)"

definition open_sockets :: "world \<Rightarrow> nat" where
  "open_sockets w = length (filter (\<lambda>s. readyState s = OPEN) (sockets w))"

section \<open>A page load\<close>

text \<open>
  The program starts from the initial state of the store (useAuth.ts, lines 18-20) and the
  field initialisers of \<^verbatim>\<open>new NotificationSocket()\<close> (client.ts, lines 217-221).
\<close>

definition initial_auth :: AuthState where
  "initial_auth = \<lparr>user = None, isLoading = True, isAuthenticated = False\<rparr>"

definition new_NotificationSocket :: NotificationSocket where
  "new_NotificationSocket = \<lparr>ws = None, userId = None, reconnectAttempts = 0\<rparr>"

text \<open>A page just loaded from the given origin, with the given stored credential.\<close>

definition loaded_page :: "bool \<Rightarrow> string \<Rightarrow> string option \<Rightarrow> world" where
  "loaded_page secure h token =
     \<lparr>localStorage = token, https = secure, host = h, navigation = None,
      ws_ctor_throws = False, auth = initial_auth,
      notificationSocket = new_NotificationSocket, sockets = [], timers = [],
      heartbeats = 0, clock = 0, trace = []\<rparr>"

text \<open>
  An assignment to \<^verbatim>\<open>window.location.href\<close> makes the browser leave the document and load
  the target: the sockets of the old document are closed without their handlers running,
  its timers are gone, and the program starts again from its initial state. The stored
  credential, the origin, the clock and the record of the effects stay.
\<close>

definition page_load :: "world \<Rightarrow> world" where
  "page_load w =
     w\<lparr>navigation := None, auth := initial_auth,
       notificationSocket := new_NotificationSocket,
       sockets := map (\<lambda>s. s\<lparr>readyState := CLOSED\<rparr>) (sockets w),
       timers := [], heartbeats := 0\<rparr>"

text \<open>The effect of \<^verbatim>\<open>App\<close> (the component after useAuth.ts in the same file) when it
  mounts: it calls \<^verbatim>\<open>initializeAuth\<close>.\<close>

definition app_start :: "User response \<Rightarrow> world \<Rightarrow> world" where
  "app_start r_me w = initializeAuth r_me (page_load w)"

section \<open>Runs of failing reconnection\<close>

text \<open>The close event of the socket that the channel holds.\<close>

definition close_held :: "(string \<Rightarrow> json option) \<Rightarrow> world \<Rightarrow> world option" where
  "close_held P w =
     (case ws (notificationSocket w) of None \<Rightarrow> None | Some i \<Rightarrow> step P (SockClose i) w)"

text \<open>One failed attempt: the held socket closes, \<open>d\<close> milliseconds pass, and the timeout
  set by that close fires, which makes the next attempt.\<close>

definition failed_attempt :: "(string \<Rightarrow> json option) \<Rightarrow> nat \<Rightarrow> world \<Rightarrow> world option" where
  "failed_attempt P d w =
     (case close_held P w of
        None \<Rightarrow> None
      | Some w1 \<Rightarrow> run P [Advance d, TimerFire 0] w1)"

text \<open>Failed attempts in a row, one for each waiting time of the list.\<close>

fun failed_attempts :: "(string \<Rightarrow> json option) \<Rightarrow> nat list \<Rightarrow> world \<Rightarrow> world option" where
  "failed_attempts P [] w = Some w"
| "failed_attempts P (d # ds) w =
     (case failed_attempt P d w of None \<Rightarrow> None | Some w1 \<Rightarrow> failed_attempts P ds w1)"

text \<open>The channel holds a socket that has not closed yet.\<close>

definition holds_live_socket :: "world \<Rightarrow> bool" where
  "holds_live_socket w =
     (case ws (notificationSocket w) of
        None \<Rightarrow> False
      | Some i \<Rightarrow> i < length (sockets w) \<and> readyState (sockets w ! i) \<noteq> CLOSED)"

section \<open>Concrete pages and frames\<close>

definition ann :: User where
  "ann = \<lparr>user_id = 7, email = ''ann@example.org'', full_name = ''Ann'', role = Customer,
          is_active = True, created_at = ''2024-01-01''\<rparr>"

text \<open>A page where Ann is logged in and the channel holds an open socket.\<close>

definition session_page :: world where
  "session_page =
     \<lparr>localStorage = Some ''tok'', https = False, host = ''localhost:3000'',
      navigation = None, ws_ctor_throws = False,
      auth = \<lparr>user = Some ann, isLoading = False, isAuthenticated = True\<rparr>,
      notificationSocket = \<lparr>ws = Some 0, userId = Some 7, reconnectAttempts = 0\<rparr>,
      sockets = [\<lparr>url_wss = False, url_host = ''localhost:3000'', url_user = Some 7,
                  readyState = OPEN\<rparr>],
      timers = [], heartbeats = 1, clock = 0, trace = []\<rparr>"

text \<open>A page just loaded with a stored credential.\<close>

definition stored_page :: world where
  "stored_page = loaded_page False ''localhost:3000'' (Some ''tok'')"

text \<open>\<^verbatim>\<open>JSON.parse\<close> on the three literal names; every other text stands for one that it
  rejects, as it rejects \<^verbatim>\<open>not-json\<close>.\<close>

definition literal_parse :: "string \<Rightarrow> json option" where
  "literal_parse s =
     (if s = ''null'' then Some JNull
      else if s = ''true'' then Some (JBool True)
      else if s = ''false'' then Some (JBool False)
      else None)"

section \<open>Auxiliary facts\<close>

lemma toasts_of_append: "toasts_of (xs @ ys) = toasts_of xs @ toasts_of ys"
  by (induction xs rule: toasts_of.induct) simp_all

lemmas effect_defs = emit_def toast_def console_def removeItem_def setItem_def set_href_def
  set_state_def

lemma session_page_fields:
  "ws (notificationSocket session_page) = Some 0"
  "userId (notificationSocket session_page) = Some 7"
  "reconnectAttempts (notificationSocket session_page) = 0"
  "sockets session_page = [\<lparr>url_wss = False, url_host = ''localhost:3000'', url_user = Some 7,
                             readyState = OPEN\<rparr>]"
  "timers session_page = []" "clock session_page = 0" "ws_ctor_throws session_page = False"
  "https session_page = False" "host session_page = ''localhost:3000''"
  "trace session_page = []" "localStorage session_page = Some ''tok''"
  "auth session_page = \<lparr>user = Some ann, isLoading = False, isAuthenticated = True\<rparr>"
  by (simp_all add: session_page_def)

text \<open>The page where Ann is logged in is what a login and the open event of the channel's
  socket make of a page just loaded, but for the recorded effects.\<close>

lemma session_page_reached:
  "map_option (\<lambda>w. w\<lparr>trace := []\<rparr>)
     (step literal_parse (SockOpen 0)
        (snd (login \<lparr>username = ''ann@example.org'', password = ''secret''\<rparr>
                (Fulfilled \<lparr>access_token = ''tok'', token_type = ''bearer''\<rparr>)
                (Fulfilled ann)
                (loaded_page False ''localhost:3000'' None))))
   = Some session_page"
  by (simp add: login_def authAPI_login_def authAPI_getCurrentUser_def api_request_def
        effect_defs Let_def loaded_page_def connect_def createConnection_def held_open_def
        new_NotificationSocket_def initial_auth_def onopen_def set_readyState_def
        session_page_def ann_def request_interceptor_def)

subsection \<open>The guard of createConnection reads the held socket only\<close>

lemma held_open_eqI:
  assumes "ws (notificationSocket w1) = ws (notificationSocket w)" and "sockets w1 = sockets w"
  shows "held_open w1 = held_open w"
  using assms by (simp add: held_open_def split: option.splits)

lemma held_open_connect:
  "ws n = ws (notificationSocket w) \<Longrightarrow> held_open (w\<lparr>notificationSocket := n\<rparr>) = held_open w"
  by (rule held_open_eqI) simp_all

lemma held_open_frame:
  "held_open (w\<lparr>trace := t\<rparr>) = held_open w"
  "held_open (w\<lparr>timers := ts\<rparr>) = held_open w"
  "held_open (w\<lparr>clock := c\<rparr>) = held_open w"
  "held_open (w\<lparr>auth := a\<rparr>) = held_open w"
  "held_open (w\<lparr>localStorage := l\<rparr>) = held_open w"
  "held_open (w\<lparr>navigation := nv\<rparr>) = held_open w"
  "held_open (w\<lparr>heartbeats := h\<rparr>) = held_open w"
  by (rule held_open_eqI, simp, simp)+

lemma createConnection_new:
  assumes "\<not> held_open w" and "\<not> ws_ctor_throws w"
  shows "createConnection w =
     w\<lparr>sockets := sockets w @ [\<lparr>url_wss = https w, url_host = host w,
                                 url_user = userId (notificationSocket w),
                                 readyState = CONNECTING\<rparr>],
       notificationSocket := (notificationSocket w)\<lparr>ws := Some (length (sockets w))\<rparr>,
       trace := trace w @ [WsNew (length (sockets w))]\<rparr>"
  using assms by (simp add: createConnection_def effect_defs Let_def)

subsection \<open>connect\<close>

lemma connect_frame:
  "localStorage (connect uid w) = localStorage w"
  "auth (connect uid w) = auth w"
  "navigation (connect uid w) = navigation w"
  "toasts_of (trace (connect uid w)) = toasts_of (trace w)"
  "userId (notificationSocket (connect uid w)) = Some uid"
  by (simp_all add: connect_def createConnection_def attemptReconnect_def effect_defs Let_def
        toasts_of_append)

lemma connect_sockets:
  "sockets (connect uid w) =
     (if held_open w \<or> ws_ctor_throws w then sockets w
      else sockets w @ [\<lparr>url_wss = https w, url_host = host w, url_user = Some uid,
                         readyState = CONNECTING\<rparr>])"
  by (simp add: connect_def createConnection_def attemptReconnect_def effect_defs Let_def
        held_open_connect)

text \<open>\<^verbatim>\<open>connect\<close> reads the channel's part of the page only.\<close>

lemma connect_channel_cong:
  assumes "notificationSocket w1 = notificationSocket w" and "sockets w1 = sockets w"
    and "timers w1 = timers w" and "clock w1 = clock w" and "https w1 = https w"
    and "host w1 = host w" and "ws_ctor_throws w1 = ws_ctor_throws w"
  shows "notificationSocket (connect uid w1) = notificationSocket (connect uid w)"
    and "sockets (connect uid w1) = sockets (connect uid w)"
    and "timers (connect uid w1) = timers (connect uid w)"
proof -
  have h: "held_open w1 = held_open w"
    by (rule held_open_eqI) (simp_all add: assms)
  show "notificationSocket (connect uid w1) = notificationSocket (connect uid w)"
    and "sockets (connect uid w1) = sockets (connect uid w)"
    and "timers (connect uid w1) = timers (connect uid w)"
    using assms h
    by (simp_all add: connect_def createConnection_def attemptReconnect_def effect_defs Let_def
          held_open_connect)
qed

lemma connect_resets:
  assumes "\<not> ws_ctor_throws w"
  shows "reconnectAttempts (notificationSocket (connect uid w)) = 0"
  using assms by (simp add: connect_def createConnection_def effect_defs Let_def)

subsection \<open>disconnect and the close event\<close>

lemma disconnect_held:
  assumes "ws (notificationSocket w) = Some i" and "i < length (sockets w)"
    and "readyState (sockets w ! i) = OPEN"
  shows "disconnect w =
     w\<lparr>sockets := (sockets w)[i := (sockets w ! i)\<lparr>readyState := CLOSING\<rparr>],
       trace := trace w @ [WsClose i],
       notificationSocket := (notificationSocket w)\<lparr>ws := None\<rparr>\<rparr>"
  using assms by (simp add: disconnect_def ws_close_def effect_defs Let_def)

lemma close_event_below:
  assumes "i < length (sockets w)" and "readyState (sockets w ! i) \<noteq> CLOSED"
    and "reconnectAttempts (notificationSocket w) < 10"
  shows "step P (SockClose i) w =
     Some (w\<lparr>sockets := (sockets w)[i := (sockets w ! i)\<lparr>readyState := CLOSED\<rparr>],
             notificationSocket := (notificationSocket w)
               \<lparr>reconnectAttempts := reconnectAttempts (notificationSocket w) + 1\<rparr>,
             trace := trace w @ [Console LogClosed,
               Console (LogReconnect (reconnectAttempts (notificationSocket w) + 1))],
             timers := timers w @ [clock w + 5000]\<rparr>)"
  using assms
  by (simp add: onclose_def attemptReconnect_def set_readyState_def effect_defs Let_def
        maxReconnectAttempts_def reconnectInterval_def)

lemma close_event_ceiling:
  assumes "i < length (sockets w)" and "readyState (sockets w ! i) \<noteq> CLOSED"
    and "10 \<le> reconnectAttempts (notificationSocket w)"
  shows "step P (SockClose i) w =
     Some (w\<lparr>sockets := (sockets w)[i := (sockets w ! i)\<lparr>readyState := CLOSED\<rparr>],
             trace := trace w @ [Console LogClosed, Console LogMaxAttempts]\<rparr>)"
  using assms
  by (simp add: onclose_def attemptReconnect_def set_readyState_def effect_defs
        maxReconnectAttempts_def)

lemma holds_live_socketE:
  assumes "holds_live_socket w"
  obtains i where "ws (notificationSocket w) = Some i" and "i < length (sockets w)"
    and "readyState (sockets w ! i) \<noteq> CLOSED"
  using assms by (auto simp: holds_live_socket_def split: option.splits)

lemma close_held_below:
  assumes live: "holds_live_socket w" and below: "reconnectAttempts (notificationSocket w) < 10"
  shows "\<exists>w1. close_held P w = Some w1
      \<and> timers w1 = timers w @ [clock w + 5000]
      \<and> reconnectAttempts (notificationSocket w1) = reconnectAttempts (notificationSocket w) + 1
      \<and> toasts_of (trace w1) = toasts_of (trace w)
      \<and> clock w1 = clock w \<and> ws_ctor_throws w1 = ws_ctor_throws w
      \<and> \<not> held_open w1 \<and> length (sockets w1) = length (sockets w)
      \<and> ws (notificationSocket w1) = ws (notificationSocket w)"
proof -
  from live obtain i where i: "ws (notificationSocket w) = Some i" "i < length (sockets w)"
    "readyState (sockets w ! i) \<noteq> CLOSED" by (rule holds_live_socketE)
  show ?thesis
    using i by (simp add: close_held_def close_event_below [OF i(2,3) below] toasts_of_append
        held_open_def del: step.simps)
qed

lemma close_held_ceiling:
  assumes live: "holds_live_socket w" and top: "10 \<le> reconnectAttempts (notificationSocket w)"
  shows "\<exists>w1. close_held P w = Some w1
      \<and> timers w1 = timers w
      \<and> reconnectAttempts (notificationSocket w1) = reconnectAttempts (notificationSocket w)
      \<and> trace w1 = trace w @ [Console LogClosed, Console LogMaxAttempts]
      \<and> clock w1 = clock w \<and> ws_ctor_throws w1 = ws_ctor_throws w
      \<and> \<not> held_open w1"
proof -
  from live obtain i where i: "ws (notificationSocket w) = Some i" "i < length (sockets w)"
    "readyState (sockets w ! i) \<noteq> CLOSED" by (rule holds_live_socketE)
  show ?thesis
    using i by (simp add: close_held_def close_event_ceiling [OF i(2,3) top]
        held_open_def del: step.simps)
qed

subsection \<open>The timeout of attemptReconnect\<close>

lemma timer_fire_new:
  assumes t: "timers w = [due]" and due: "due \<le> clock w + d"
    and nopen: "\<not> held_open w" and ok: "\<not> ws_ctor_throws w"
  shows "\<exists>w1. run P [Advance d, TimerFire 0] w = Some w1
     \<and> holds_live_socket w1 \<and> timers w1 = [] \<and> \<not> ws_ctor_throws w1
     \<and> reconnectAttempts (notificationSocket w1) = reconnectAttempts (notificationSocket w)
     \<and> toasts_of (trace w1) = toasts_of (trace w) \<and> clock w1 = clock w + d"
proof -
  let ?w = "w\<lparr>clock := clock w + d, timers := []\<rparr>"
  have n: "\<not> held_open ?w" using nopen by (simp add: held_open_frame)
  have k: "\<not> ws_ctor_throws ?w" using ok by simp
  show ?thesis
    using t due
    by (simp add: createConnection_new [OF n k] holds_live_socket_def toasts_of_append ok)
qed

lemma timer_fire_early:
  assumes t: "timers w = [due]" and due: "clock w + d < due"
  shows "run P [Advance d, TimerFire 0] w = None"
  using assms by simp

lemma failed_attempt_step:
  assumes live: "holds_live_socket w" and nt: "timers w = []" and ok: "\<not> ws_ctor_throws w"
    and below: "reconnectAttempts (notificationSocket w) < 10" and wait: "5000 \<le> d"
  shows "\<exists>w1. failed_attempt P d w = Some w1 \<and> holds_live_socket w1 \<and> timers w1 = []
     \<and> \<not> ws_ctor_throws w1
     \<and> reconnectAttempts (notificationSocket w1) = reconnectAttempts (notificationSocket w) + 1
     \<and> toasts_of (trace w1) = toasts_of (trace w) \<and> clock w1 = clock w + d"
proof -
  from close_held_below [OF live below, of P] obtain w1 where
    c: "close_held P w = Some w1" and f: "timers w1 = [clock w + 5000]"
      "reconnectAttempts (notificationSocket w1) = reconnectAttempts (notificationSocket w) + 1"
      "toasts_of (trace w1) = toasts_of (trace w)" "clock w1 = clock w"
      "\<not> ws_ctor_throws w1" "\<not> held_open w1"
    using nt ok by auto
  have due: "clock w + 5000 \<le> clock w1 + d" using wait f(4) by simp
  from timer_fire_new [OF f(1) due f(6) f(5), of P] obtain w2 where
    "run P [Advance d, TimerFire 0] w1 = Some w2" "holds_live_socket w2" "timers w2 = []"
    "\<not> ws_ctor_throws w2"
    "reconnectAttempts (notificationSocket w2) = reconnectAttempts (notificationSocket w1)"
    "toasts_of (trace w2) = toasts_of (trace w1)" "clock w2 = clock w1 + d"
    by blast
  then show ?thesis
    using c f by (simp add: failed_attempt_def del: run.simps)
qed

lemma failed_attempts_run:
  assumes "holds_live_socket w" and "timers w = []" and "\<not> ws_ctor_throws w"
    and "reconnectAttempts (notificationSocket w) + length ds \<le> 10"
    and "\<forall>d\<in>set ds. 5000 \<le> d"
  shows "\<exists>w1. failed_attempts P ds w = Some w1 \<and> holds_live_socket w1 \<and> timers w1 = []
     \<and> \<not> ws_ctor_throws w1
     \<and> reconnectAttempts (notificationSocket w1) =
          reconnectAttempts (notificationSocket w) + length ds
     \<and> toasts_of (trace w1) = toasts_of (trace w)"
  using assms
proof (induction ds arbitrary: w)
  case Nil
  then show ?case by simp
next
  case (Cons d ds)
  have below: "reconnectAttempts (notificationSocket w) < 10" using Cons.prems(4) by simp
  have wait: "5000 \<le> d" using Cons.prems(5) by simp
  from failed_attempt_step [OF Cons.prems(1-3) below wait, of P] obtain w1 where
    s: "failed_attempt P d w = Some w1" "holds_live_socket w1" "timers w1 = []"
      "\<not> ws_ctor_throws w1"
      "reconnectAttempts (notificationSocket w1) = reconnectAttempts (notificationSocket w) + 1"
      "toasts_of (trace w1) = toasts_of (trace w)"
    by blast
  have n: "reconnectAttempts (notificationSocket w1) + length ds \<le> 10"
    using Cons.prems(4) s(5) by simp
  have ds: "\<forall>d\<in>set ds. 5000 \<le> d" using Cons.prems(5) by simp
  from Cons.IH [OF s(2,3,4) n ds] obtain w2 where
    "failed_attempts P ds w1 = Some w2" "holds_live_socket w2" "timers w2 = []"
    "\<not> ws_ctor_throws w2"
    "reconnectAttempts (notificationSocket w2) =
       reconnectAttempts (notificationSocket w1) + length ds"
    "toasts_of (trace w2) = toasts_of (trace w1)"
    by blast
  then show ?case using s by simp
qed

subsection \<open>handleMessage\<close>

lemma handleMessage_cases:
  "handleMessage v w = Inr w1 \<Longrightarrow> w1 = w \<or> (\<exists>m. w1 = toast toast_success m w)"
  by (auto simp: handleMessage_def split: sum.splits if_splits)

lemma handleMessage_frame:
  assumes "handleMessage v w = Inr w1"
  shows "sockets w1 = sockets w" and "notificationSocket w1 = notificationSocket w"
    and "timers w1 = timers w" and "auth w1 = auth w" and "localStorage w1 = localStorage w"
  using handleMessage_cases [OF assms] by (auto simp: effect_defs)

lemma literal_parse_values:
  "literal_parse ''not-json'' = None" "literal_parse ''null'' = Some JNull"
  by (simp_all add: literal_parse_def)

section \<open>C1: the open connections of one channel\<close>

text \<open>
  What holds of the two methods: a connection attempt is skipped when the held socket is
  open, and \<^verbatim>\<open>disconnect\<close> asks the held socket to close and clears the reference.
\<close>

lemma createConnection_skips_open: "held_open w \<Longrightarrow> createConnection w = w"
  by (simp add: createConnection_def)

lemma disconnect_clears: "ws (notificationSocket (disconnect w)) = None"
  by (simp add: disconnect_def Let_def split: option.splits)

text \<open>
  C1 says that after every sequence of \<^verbatim>\<open>connect\<close> and \<^verbatim>\<open>disconnect\<close> calls at most
  one connection of the channel is open at any instant. The guard of
  \<^verbatim>\<open>createConnection\<close> looks for a held socket that is open and misses one that is still
  connecting: a second \<^verbatim>\<open>connect\<close> before the first socket has opened creates a second
  socket and drops the reference to the first without closing it. On a page just loaded,
  after \<^verbatim>\<open>connect(1)\<close>, \<^verbatim>\<open>connect(1)\<close> and the open events of the two sockets, two
  connections are open.
\<close>

theorem two_connections_open:
  "map_option open_sockets
     (run literal_parse [Connect 1, Connect 1, SockOpen 0, SockOpen 1]
        (loaded_page False ''localhost:3000'' None)) = Some 2"
  by (simp add: loaded_page_def connect_def createConnection_def held_open_def effect_defs
        Let_def onopen_def set_readyState_def open_sockets_def new_NotificationSocket_def
        initial_auth_def nth_append)

section \<open>C2: reconnection stops at the ceiling\<close>

text \<open>
  What holds while the socket that the channel holds is the only one that closes. The
  channel holds a socket that has not closed, no timeout is pending, the counter is zero
  and sockets can be created. \<open>ds\<close> are the waiting times of the failed attempts so far,
  at most 10 of them, none shorter than the interval of 5000 milliseconds (the 5 time units
  of the specification). Then the run exists and the counter is the number of failed
  attempts; no alert was shown. At the next close event of the held socket: after 10 failed
  attempts no timeout is set, the counter stays 10, no alert is shown and nothing can fire
  later; otherwise one timeout is set, due 5000 milliseconds after the close, it cannot
  fire before, and when it fires a new socket is created. After that close,
  \<^verbatim>\<open>connect\<close> leaves the counter at zero.
\<close>

lemma reconnect_until_ceiling:
  assumes live: "holds_live_socket w" and nt: "timers w = []" and ok: "\<not> ws_ctor_throws w"
    and zero: "reconnectAttempts (notificationSocket w) = 0"
    and len: "length ds \<le> 10" and wait: "\<forall>d\<in>set ds. 5000 \<le> d"
  shows "\<exists>w1. failed_attempts P ds w = Some w1
      \<and> reconnectAttempts (notificationSocket w1) = length ds
      \<and> toasts_of (trace w1) = toasts_of (trace w)
      \<and> (\<exists>w2. close_held P w1 = Some w2
            \<and> toasts_of (trace w2) = toasts_of (trace w)
            \<and> timers w2 = (if length ds = 10 then [] else [clock w1 + 5000])
            \<and> reconnectAttempts (notificationSocket w2) =
                 (if length ds = 10 then 10 else length ds + 1)
            \<and> (\<forall>d<5000. run P [Advance d, TimerFire 0] w2 = None)
            \<and> (\<forall>d. length ds = 10 \<longrightarrow> run P [Advance d, TimerFire 0] w2 = None)
            \<and> (\<forall>d\<ge>5000. length ds < 10 \<longrightarrow>
                  (\<exists>w3. run P [Advance d, TimerFire 0] w2 = Some w3
                     \<and> length (sockets w3) = length (sockets w2) + 1
                     \<and> clock w3 = clock w1 + d))
            \<and> reconnectAttempts (notificationSocket (connect uid w2)) = 0)"
proof -
  from failed_attempts_run [OF live nt ok _ wait, of P] zero len obtain w1 where
    r: "failed_attempts P ds w = Some w1" "holds_live_socket w1" "timers w1 = []"
      "\<not> ws_ctor_throws w1" "reconnectAttempts (notificationSocket w1) = length ds"
      "toasts_of (trace w1) = toasts_of (trace w)"
    by auto
  show ?thesis
  proof (cases "length ds = 10")
    case True
    then have top: "10 \<le> reconnectAttempts (notificationSocket w1)" using r(5) by simp
    from close_held_ceiling [OF r(2) top, of P] obtain w2 where
      c: "close_held P w1 = Some w2" "timers w2 = timers w1"
        "reconnectAttempts (notificationSocket w2) = reconnectAttempts (notificationSocket w1)"
        "trace w2 = trace w1 @ [Console LogClosed, Console LogMaxAttempts]"
        "ws_ctor_throws w2 = ws_ctor_throws w1"
      by blast
    have t: "toasts_of (trace w2) = toasts_of (trace w)"
      by (simp add: c(4) toasts_of_append r(6))
    have none: "run P [Advance d, TimerFire 0] w2 = None" for d
      by (simp add: c(2) r(3))
    have z: "reconnectAttempts (notificationSocket (connect uid w2)) = 0"
      by (rule connect_resets) (simp add: c(5) r(4))
    show ?thesis
      using True r(1,5,6) c(1,2,3) t none z r(3) by (simp del: run.simps)
  next
    case False
    then have below: "reconnectAttempts (notificationSocket w1) < 10" using r(5) len by simp
    from close_held_below [OF r(2) below, of P] obtain w2 where
      c: "close_held P w1 = Some w2" "timers w2 = timers w1 @ [clock w1 + 5000]"
        "reconnectAttempts (notificationSocket w2) = reconnectAttempts (notificationSocket w1) + 1"
        "toasts_of (trace w2) = toasts_of (trace w1)" "clock w2 = clock w1"
        "ws_ctor_throws w2 = ws_ctor_throws w1" "\<not> held_open w2"
      by blast
    have t2: "timers w2 = [clock w1 + 5000]" using c(2) r(3) by simp
    have early: "run P [Advance d, TimerFire 0] w2 = None" if "d < 5000" for d
      by (rule timer_fire_early [OF t2]) (simp add: c(5) that)
    have late: "\<exists>w3. run P [Advance d, TimerFire 0] w2 = Some w3
                     \<and> length (sockets w3) = length (sockets w2) + 1
                     \<and> clock w3 = clock w1 + d" if "5000 \<le> d" for d
    proof -
      have n: "\<not> held_open (w2\<lparr>clock := clock w1 + d, timers := []\<rparr>)"
        using c(7) by (simp add: held_open_frame)
      have k: "\<not> ws_ctor_throws (w2\<lparr>clock := clock w1 + d, timers := []\<rparr>)"
        using c(6) r(4) by simp
      show ?thesis using that t2 c(5)
        by (simp add: createConnection_new [OF n k])
    qed
    have z: "reconnectAttempts (notificationSocket (connect uid w2)) = 0"
      by (rule connect_resets) (simp add: c(6) r(4))
    show ?thesis
      using False r(1,5,6) c(1,3,4) t2 early late z len by (simp del: run.simps)
  qed
qed

text \<open>The run of ten failed attempts, each after exactly the interval, from the page where
  Ann is logged in: the eleventh close sets no timeout.\<close>

lemma reconnect_until_ceiling_witness:
  "\<exists>w1. failed_attempts literal_parse (replicate 10 5000) session_page = Some w1
      \<and> reconnectAttempts (notificationSocket w1) = 10
      \<and> (\<exists>w2. close_held literal_parse w1 = Some w2
            \<and> timers w2 = []
            \<and> toasts_of (trace w2) = []
            \<and> reconnectAttempts (notificationSocket w2) = 10
            \<and> reconnectAttempts (notificationSocket (connect 7 w2)) = 0)"
proof -
  have h: "holds_live_socket session_page" "timers session_page = []"
    "\<not> ws_ctor_throws session_page"
    "reconnectAttempts (notificationSocket session_page) = 0"
    "length (replicate 10 (5000::nat)) \<le> 10" "\<forall>d\<in>set (replicate 10 (5000::nat)). 5000 \<le> d"
    by (simp_all add: holds_live_socket_def session_page_fields)
  from reconnect_until_ceiling [OF h, of literal_parse 7] obtain w1 w2 where
    "failed_attempts literal_parse (replicate 10 5000) session_page = Some w1"
    "reconnectAttempts (notificationSocket w1) = length (replicate 10 (5000::nat))"
    "close_held literal_parse w1 = Some w2"
    "toasts_of (trace w2) = toasts_of (trace session_page)"
    "timers w2 = (if length (replicate 10 (5000::nat)) = 10 then [] else [clock w1 + 5000])"
    "reconnectAttempts (notificationSocket w2) =
       (if length (replicate 10 (5000::nat)) = 10 then 10
        else length (replicate 10 (5000::nat)) + 1)"
    "reconnectAttempts (notificationSocket (connect 7 w2)) = 0"
    by blast
  then show ?thesis by (simp add: session_page_fields)
qed

text \<open>
  C2 says that in every run where the connection attempts keep failing after an unexpected
  close, the attempts are separated by the retry interval, the counter goes up until it is
  10, the close that finds it at 10 sets no timeout, and \<^verbatim>\<open>connect\<close> puts the counter
  back to zero. Every close event sets a timeout of its own, and the guard of
  \<^verbatim>\<open>createConnection\<close> lets an attempt through while the held socket is still
  connecting. After \<^verbatim>\<open>connect(1)\<close> twice on a page just loaded the page has two
  sockets with the handlers of the channel. Both open, and both are closed by the server
  at time 0: two timeouts are due at 5000. At 5000 the first fires and creates socket 2;
  the second fires at the same instant and creates socket 3, while socket 2 is connecting.
  The two attempts are 0 milliseconds apart.
\<close>

theorem two_attempts_same_instant:
  "map_option
     (\<lambda>w. (length (sockets w), clock w, reconnectAttempts (notificationSocket w), timers w))
     (run literal_parse
        [Connect 1, Connect 1, SockOpen 0, SockOpen 1, SockClose 0, SockClose 1,
         Advance 5000, TimerFire 0]
        (loaded_page False ''localhost:3000'' None)) = Some (3, 5000, 2, [5000])
   \<and> map_option
     (\<lambda>w. (length (sockets w), clock w, reconnectAttempts (notificationSocket w), timers w))
     (run literal_parse
        [Connect 1, Connect 1, SockOpen 0, SockOpen 1, SockClose 0, SockClose 1,
         Advance 5000, TimerFire 0, TimerFire 0]
        (loaded_page False ''localhost:3000'' None)) = Some (4, 5000, 2, [])"
  by (simp add: loaded_page_def connect_def createConnection_def held_open_def effect_defs
        Let_def onopen_def onclose_def attemptReconnect_def set_readyState_def
        new_NotificationSocket_def initial_auth_def nth_append
        maxReconnectAttempts_def reconnectInterval_def)

section \<open>C3: a 401 response in the Request Gateway\<close>

text \<open>
  The interceptor does not write to the Session Store: until the navigation that it
  requests is carried out, the store keeps its state.
\<close>

lemma gateway_401_until_reload:
  "auth (snd (api_request m path body (Rejected (Some 401)) w)) = auth w"
  by (simp add: api_request_def response_error_def effect_defs)

text \<open>
  C3: for every outbound call through the Request Gateway that receives a 401, whichever
  call it was, the net effect is: the error reaches the caller; the persisted credential is
  deleted; the client navigates to the login entry point; exactly one session-expired
  alert is shown (the effects of the call are, in order, the request, the removal of the
  credential, the navigation and that alert); and the session state becomes
  unauthenticated: the page that the navigation loads starts with no Identity and not
  authenticated, and stays so when \<^verbatim>\<open>initializeAuth\<close> has run, which finds no credential,
  makes no request and shows no further alert.
\<close>

theorem gateway_401_net_effect:
  "(let res = api_request m path body (Rejected (Some 401)) w; w1 = snd res
    in fst res = Inl (AxiosError (Some 401))
     \<and> localStorage w1 = None
     \<and> navigation w1 = Some ''/login''
     \<and> trace w1 = trace w @ [Request m path (request_interceptor w) body, StorageRemove,
                               Navigate ''/login'', Toast toast_error SessionExpired]
     \<and> toasts_of (trace w1) = toasts_of (trace w) @ [(toast_error, SessionExpired)]
     \<and> auth (page_load w1) = \<lparr>user = None, isLoading = True, isAuthenticated = False\<rparr>
     \<and> (\<forall>r_me. auth (app_start r_me w1) =
                  \<lparr>user = None, isLoading = False, isAuthenticated = False\<rparr>
              \<and> localStorage (app_start r_me w1) = None
              \<and> toasts_of (trace (app_start r_me w1)) =
                   toasts_of (trace w) @ [(toast_error, SessionExpired)]))"
  by (simp add: api_request_def response_error_def effect_defs toasts_of_append Let_def
        app_start_def page_load_def initializeAuth_def initial_auth_def)

section \<open>C4: initializeAuth with a credential that the server rejects\<close>

text \<open>
  C4 says that when \<^verbatim>\<open>initializeAuth\<close> starts with a persisted credential and the
  Identity fetch fails, no alert is shown, also when the failure is a 401 that passes the
  interceptor. The fetch goes through the Request Gateway, whose interceptor shows its
  alert before \<^verbatim>\<open>initializeAuth\<close> catches the error: on a page just loaded with a stored
  credential, a fetch answered with 401 shows the session-expired alert.
\<close>

theorem initializeAuth_401_alert:
  "toasts_of (trace (initializeAuth (Rejected (Some 401)) stored_page))
     = [(toast_error, SessionExpired)]"
  by (simp add: initializeAuth_def authAPI_getCurrentUser_def api_request_def
        response_error_def effect_defs loaded_page_def stored_page_def)

text \<open>
  C4 as amended: for every run of \<^verbatim>\<open>initializeAuth\<close> that starts with a persisted,
  non-empty credential and whose Identity fetch fails, the persisted credential is deleted
  and the session state ends unauthenticated. \<^verbatim>\<open>initializeAuth\<close> shows no alert of its
  own: the alerts of the run are those of the interceptor, which are the session-expired
  alert on a 401 (with the navigation to the login entry point), the permission alert on a
  403, the server-error alert on a status of 500 or more, the network alert when there is
  no response, and none on any other status.
\<close>

theorem initializeAuth_failure:
  assumes "localStorage w = Some token" and "token \<noteq> []"
  shows "(let w1 = initializeAuth (Rejected status) w
    in localStorage w1 = None
     \<and> auth w1 = \<lparr>user = None, isLoading = False, isAuthenticated = False\<rparr>
     \<and> toasts_of (trace w1) = toasts_of (trace (response_error status w))
     \<and> toasts_of (trace w1) = toasts_of (trace w) @
         (if status = Some 401 then [(toast_error, SessionExpired)]
          else if status = Some 403 then [(toast_error, NoPermission)]
          else if (case status of None \<Rightarrow> False | Some s \<Rightarrow> 500 \<le> s)
            then [(toast_error, ServerError)]
          else if status = None then [(toast_error, NetworkError)]
          else [])
     \<and> navigation w1 = (if status = Some 401 then Some ''/login'' else navigation w))"
  using assms
  by (cases status)
     (simp_all add: initializeAuth_def authAPI_getCurrentUser_def api_request_def
        response_error_def effect_defs toasts_of_append Let_def)

text \<open>A fetch answered with 404: the credential is deleted and no alert is shown.\<close>

theorem initializeAuth_failure_witness:
  "localStorage (initializeAuth (Rejected (Some 404)) stored_page) = None
   \<and> auth (initializeAuth (Rejected (Some 404)) stored_page)
       = \<lparr>user = None, isLoading = False, isAuthenticated = False\<rparr>
   \<and> toasts_of (trace (initializeAuth (Rejected (Some 404)) stored_page)) = []
   \<and> navigation (initializeAuth (Rejected (Some 404)) stored_page) = None"
proof -
  have h: "localStorage stored_page = Some ''tok''" "''tok'' \<noteq> []"
    by (simp_all add: stored_page_def loaded_page_def)
  have v: "trace stored_page = []" "navigation stored_page = None"
    by (simp_all add: stored_page_def loaded_page_def)
  show ?thesis
    using initializeAuth_failure [OF h, of "Some 404"] by (auto simp add: Let_def v)
qed

section \<open>C5: the channel and the end of a session\<close>

text \<open>
  The order of \<^verbatim>\<open>logout\<close>: after the credential is removed, the held socket, if there
  is one, is asked to close and the channel's reference is cleared, and only then is the
  store set to no Identity and unauthenticated; the alert and the navigation follow. A held
  socket that had not closed is closing after logout. The 401 path of the Request Gateway
  leaves the channel, its sockets, its timeouts and the store as they were; it deletes the
  credential and requests the navigation to the login entry point.
\<close>

lemma logout_teardown_order:
  "trace (logout w) = trace w @ StorageRemove #
       (case ws (notificationSocket w) of None \<Rightarrow> [] | Some i \<Rightarrow> [WsClose i]) @
       [StoreSet \<lparr>user = None, isLoading = False, isAuthenticated = False\<rparr>,
        Toast toast_success Goodbye, Navigate ''/login'']
   \<and> ws (notificationSocket (logout w)) = None
   \<and> auth (logout w) = \<lparr>user = None, isLoading = False, isAuthenticated = False\<rparr>
   \<and> (\<forall>i. ws (notificationSocket w) = Some i \<and> i < length (sockets w)
          \<longrightarrow> readyState (sockets (logout w) ! i) =
               (if readyState (sockets w ! i) = CLOSED then CLOSED else CLOSING))
   \<and> (let w1 = snd (api_request m path body (Rejected (Some 401)) w)
      in notificationSocket w1 = notificationSocket w \<and> sockets w1 = sockets w
       \<and> timers w1 = timers w \<and> auth w1 = auth w
       \<and> localStorage w1 = None \<and> navigation w1 = Some ''/login'')"
proof -
  have a: "trace (logout w) = trace w @ StorageRemove #
       (case ws (notificationSocket w) of None \<Rightarrow> [] | Some i \<Rightarrow> [WsClose i]) @
       [StoreSet \<lparr>user = None, isLoading = False, isAuthenticated = False\<rparr>,
        Toast toast_success Goodbye, Navigate ''/login'']"
    by (simp add: logout_def disconnect_def ws_close_def effect_defs Let_def
          split: option.splits)
  have b: "ws (notificationSocket (logout w)) = None"
    "auth (logout w) = \<lparr>user = None, isLoading = False, isAuthenticated = False\<rparr>"
    by (simp_all add: logout_def disconnect_def ws_close_def effect_defs Let_def
          split: option.splits)
  have c: "readyState (sockets (logout w) ! i) =
               (if readyState (sockets w ! i) = CLOSED then CLOSED else CLOSING)"
    if "ws (notificationSocket w) = Some i" "i < length (sockets w)" for i
    using that
    by (cases "readyState (sockets w ! i)")
       (simp_all add: logout_def disconnect_def ws_close_def effect_defs Let_def)
  have d: "(let w1 = snd (api_request m path body (Rejected (Some 401)) w)
      in notificationSocket w1 = notificationSocket w \<and> sockets w1 = sockets w
       \<and> timers w1 = timers w \<and> auth w1 = auth w
       \<and> localStorage w1 = None \<and> navigation w1 = Some ''/login'')"
    by (simp add: api_request_def response_error_def effect_defs Let_def)
  show ?thesis using a b c d by blast
qed

text \<open>Logout on the page where Ann is logged in: the close of socket 0 is requested before
  the store is set.\<close>

lemma logout_teardown_order_witness:
  "readyState (sockets (logout session_page) ! 0) = CLOSING
   \<and> trace (logout session_page) =
       [StorageRemove, WsClose 0,
        StoreSet \<lparr>user = None, isLoading = False, isAuthenticated = False\<rparr>,
        Toast toast_success Goodbye, Navigate ''/login'']"
  using logout_teardown_order [of session_page GET "''/api/tickets/''" "[]"]
  by (auto simp add: session_page_fields Let_def)

text \<open>On the 401 path the Identity goes with the page: the load that the navigation brings
  closes every socket and starts with a channel that holds nothing.\<close>

lemma page_load_closes:
  "open_sockets (page_load w) = 0" "ws (notificationSocket (page_load w)) = None"
  "timers (page_load w) = []" "user (auth (page_load w)) = None"
  by (simp_all add: page_load_def open_sockets_def new_NotificationSocket_def initial_auth_def
        filter_empty_conv)

text \<open>
  C5 says that in every reachable state the Channel Connection does not outlive the session
  of its Identity: on logout and on the 401 path the channel is torn down before the
  Identity is cleared. \<^verbatim>\<open>logout\<close> calls \<^verbatim>\<open>disconnect\<close> first, but \<^verbatim>\<open>disconnect\<close>
  leaves the close handler on the socket and the user id in the channel. On the page where
  Ann is logged in, after \<^verbatim>\<open>logout\<close> the old document runs on until the browser has
  loaded the login page. When the close event of socket 0 arrives and 5000 milliseconds
  pass before that, the timeout set by the close fires and opens a new connection for
  Ann's id 7: the store holds no Identity, no credential is stored, the navigation is
  still pending, and the channel holds an open socket.
\<close>

theorem channel_reopens_after_logout:
  "map_option
     (\<lambda>w. (user (auth w), isAuthenticated (auth w), localStorage w, navigation w, held_open w,
           map url_user (filter (\<lambda>s. readyState s = OPEN) (sockets w))))
     (run literal_parse [SockClose 0, Advance 5000, TimerFire 0, SockOpen 1]
        (logout session_page))
   = Some (None, False, None, Some ''/login'', True, [Some 7])"
  by (simp add: logout_def disconnect_def ws_close_def session_page_def createConnection_def
        held_open_def effect_defs Let_def onopen_def onclose_def attemptReconnect_def
        set_readyState_def nth_append maxReconnectAttempts_def reconnectInterval_def)

section \<open>C6: a successful login\<close>

text \<open>
  C6: for every \<^verbatim>\<open>login\<close> call in which the token exchange and the Identity fetch both
  succeed, the call returns normally, the session state is authenticated with the fetched
  Identity, the persisted credential is the access token that the login call returned, the
  channel's \<^verbatim>\<open>connect\<close> was called with the Identity's id (the channel is as
  \<^verbatim>\<open>connect\<close> with that id leaves it: the id is stored, and unless the held socket is
  open or sockets cannot be created, a new socket for that id is connecting), and one
  alert was added, the welcome alert.
\<close>

theorem login_success:
  "(let res = login c (Fulfilled lr) (Fulfilled u) w; w1 = snd res
    in fst res = Inr ()
     \<and> auth w1 = \<lparr>user = Some u, isLoading = False, isAuthenticated = True\<rparr>
     \<and> localStorage w1 = Some (access_token lr)
     \<and> userId (notificationSocket w1) = Some (user_id u)
     \<and> notificationSocket w1 = notificationSocket (connect (user_id u) w)
     \<and> sockets w1 = sockets (connect (user_id u) w)
     \<and> timers w1 = timers (connect (user_id u) w)
     \<and> sockets w1 = (if held_open w \<or> ws_ctor_throws w then sockets w
          else sockets w @ [\<lparr>url_wss = https w, url_host = host w,
                             url_user = Some (user_id u), readyState = CONNECTING\<rparr>])
     \<and> toasts_of (trace w1) = toasts_of (trace w) @ [(toast_success, Welcome (full_name u))])"
proof -
  define w3 where
    "w3 = setItem (access_token lr)
            (emit (Request POST ''/api/auth/login''
                     (request_interceptor (set_state (\<lambda>s. s\<lparr>isLoading := True\<rparr>) w))
                     [(''username'', username c), (''password'', password c)])
               (set_state (\<lambda>s. s\<lparr>isLoading := True\<rparr>) w))"
  define w5 where
    "w5 = set_state (\<lambda>s. s\<lparr>user := Some u, isAuthenticated := True, isLoading := False\<rparr>)
            (emit (Request GET ''/api/auth/me'' (request_interceptor w3) []) w3)"
  have eq: "login c (Fulfilled lr) (Fulfilled u) w =
      (Inr (), toast toast_success (Welcome (full_name u)) (connect (user_id u) w5))"
    unfolding w5_def w3_def
    by (simp add: login_def authAPI_login_def authAPI_getCurrentUser_def api_request_def Let_def)
  have ch: "notificationSocket w5 = notificationSocket w" "sockets w5 = sockets w"
    "timers w5 = timers w" "clock w5 = clock w" "https w5 = https w" "host w5 = host w"
    "ws_ctor_throws w5 = ws_ctor_throws w"
    unfolding w5_def w3_def by (simp_all add: effect_defs)
  have st: "localStorage w5 = Some (access_token lr)"
    "auth w5 = \<lparr>user = Some u, isLoading = False, isAuthenticated = True\<rparr>"
    "toasts_of (trace w5) = toasts_of (trace w)"
    unfolding w5_def w3_def by (simp_all add: effect_defs toasts_of_append)
  note cong = connect_channel_cong [OF ch]
  show ?thesis
    unfolding Let_def eq fst_conv snd_conv
    by (simp add: toast_def emit_def toasts_of_append connect_frame cong st
          connect_sockets [of "user_id u" w])
qed

section \<open>C7: logout twice\<close>

text \<open>
  C7 says that a second \<^verbatim>\<open>logout\<close> in a row is a no-op that shows no duplicate alert.
  \<^verbatim>\<open>logout\<close> shows its alert on every call: on the page where Ann is logged in, one call
  shows one goodbye alert and two calls show two.
\<close>

theorem logout_twice_two_alerts:
  "toasts_of (trace (logout session_page)) = [(toast_success, Goodbye)]
   \<and> toasts_of (trace (logout (logout session_page)))
       = [(toast_success, Goodbye), (toast_success, Goodbye)]"
  by (simp add: logout_def disconnect_def ws_close_def effect_defs Let_def session_page_def)

text \<open>
  C7 as amended: for every state, neither call of \<^verbatim>\<open>logout\<close> throws (no statement of
  \<^verbatim>\<open>logout\<close> can fail: it is a function from pages to pages), and after one call
  the credential is deleted, the store holds no Identity and is unauthenticated, and the
  channel holds no socket. A second call in a row leaves the credential, the store, the
  channel, its sockets and timeouts as the first call left them, but it is not a no-op: it
  removes the credential, sets the store, shows the goodbye alert and requests the
  navigation once more, so two calls show two goodbye alerts.
\<close>

theorem logout_twice:
  "logout (logout w) =
     (logout w)\<lparr>trace := trace (logout w) @
        [StorageRemove, StoreSet \<lparr>user = None, isLoading = False, isAuthenticated = False\<rparr>,
         Toast toast_success Goodbye, Navigate ''/login'']\<rparr>
   \<and> localStorage (logout w) = None
   \<and> auth (logout w) = \<lparr>user = None, isLoading = False, isAuthenticated = False\<rparr>
   \<and> ws (notificationSocket (logout w)) = None
   \<and> toasts_of (trace (logout w)) = toasts_of (trace w) @ [(toast_success, Goodbye)]
   \<and> toasts_of (trace (logout (logout w))) =
       toasts_of (trace w) @ [(toast_success, Goodbye), (toast_success, Goodbye)]"
  by (simp add: logout_def disconnect_def ws_close_def effect_defs Let_def toasts_of_append
        split: option.splits)

section \<open>C8: no exception leaves the message handler\<close>

text \<open>
  C8: for every inbound frame the \<^verbatim>\<open>onmessage\<close> handler returns normally, whatever
  \<^verbatim>\<open>JSON.parse\<close> makes of the frame, and it leaves the sockets, the channel's fields and
  the timeouts as they were, so the connection stays open. A frame that
  \<^verbatim>\<open>JSON.parse\<close> rejects is logged and dropped: the only effect is one line on the
  console, and no alert is shown. A frame that parses to a value on which
  \<^verbatim>\<open>handleMessage\<close> throws (a malformed envelope) is logged in the same way, and the
  exception does not leave the handler.
\<close>

theorem onmessage_no_escape:
  "(\<exists>w1. onmessage P d w = Inr w1
        \<and> sockets w1 = sockets w \<and> notificationSocket w1 = notificationSocket w
        \<and> timers w1 = timers w)
   \<and> (P d = None \<longrightarrow>
        onmessage P d w = Inr (console LogParseError w)
        \<and> toasts_of (trace (console LogParseError w)) = toasts_of (trace w)
        \<and> trace (console LogParseError w) = trace w @ [Console LogParseError])
   \<and> (\<forall>v e. P d = Some v \<and> handleMessage v w = Inl e \<longrightarrow>
        onmessage P d w = Inr (console LogParseError w))"
proof -
  have a: "\<exists>w1. onmessage P d w = Inr w1
        \<and> sockets w1 = sockets w \<and> notificationSocket w1 = notificationSocket w
        \<and> timers w1 = timers w"
  proof (cases "P d")
    case None
    then show ?thesis by (simp add: onmessage_def effect_defs)
  next
    case (Some v)
    show ?thesis
    proof (cases "handleMessage v w")
      case (Inl e)
      then show ?thesis using Some by (simp add: onmessage_def effect_defs)
    next
      case (Inr w1)
      then show ?thesis using Some handleMessage_frame [OF Inr] by (simp add: onmessage_def)
    qed
  qed
  have b: "P d = None \<longrightarrow>
        onmessage P d w = Inr (console LogParseError w)
        \<and> toasts_of (trace (console LogParseError w)) = toasts_of (trace w)
        \<and> trace (console LogParseError w) = trace w @ [Console LogParseError]"
    by (simp add: onmessage_def effect_defs toasts_of_append)
  have c: "\<forall>v e. P d = Some v \<and> handleMessage v w = Inl e \<longrightarrow>
        onmessage P d w = Inr (console LogParseError w)"
    by (simp add: onmessage_def)
  show ?thesis using a b c by blast
qed

text \<open>The frame \<^verbatim>\<open>not-json\<close>, which does not parse, and the frame \<^verbatim>\<open>null\<close>, which parses
  to a value whose \<^verbatim>\<open>type\<close> cannot be read.\<close>

theorem onmessage_no_escape_witness:
  "onmessage literal_parse ''not-json'' session_page = Inr (console LogParseError session_page)
   \<and> toasts_of (trace (console LogParseError session_page)) = []
   \<and> handleMessage JNull session_page = Inl TypeError
   \<and> onmessage literal_parse ''null'' session_page = Inr (console LogParseError session_page)"
proof -
  have t: "handleMessage JNull session_page = Inl TypeError"
    by (simp add: handleMessage_def)
  show ?thesis
    using onmessage_no_escape [of literal_parse "''not-json''" session_page]
      onmessage_no_escape [of literal_parse "''null''" session_page] t
    by (simp add: literal_parse_values session_page_def)
qed

section \<open>C9: disconnect does not stop reconnection\<close>

text \<open>
  C9: when the channel holds an open socket and the attempt counter is below the ceiling,
  \<^verbatim>\<open>disconnect\<close> starts the closing of that socket and clears the reference, and the
  handlers stay on the socket: its close event runs the reconnection logic, which counts
  one more attempt and sets a timeout due 5000 milliseconds later. The timeout cannot fire
  at once; when it fires after the interval it makes a connection attempt, which (where
  sockets can be created) creates a new socket for the stored user id and makes the channel
  hold it, although the caller asked to disconnect.
\<close>

theorem disconnect_then_reconnect:
  assumes held: "ws (notificationSocket w) = Some i" and valid: "i < length (sockets w)"
    and opened: "readyState (sockets w ! i) = OPEN"
    and below: "reconnectAttempts (notificationSocket w) < 10"
  shows "readyState (sockets (disconnect w) ! i) = CLOSING
    \<and> ws (notificationSocket (disconnect w)) = None
    \<and> (\<exists>w1. step P (SockClose i) (disconnect w) = Some w1
          \<and> timers w1 = timers w @ [clock w + 5000]
          \<and> reconnectAttempts (notificationSocket w1) =
               reconnectAttempts (notificationSocket w) + 1
          \<and> step P (TimerFire (length (timers w))) w1 = None
          \<and> (\<exists>w2. run P [Advance 5000, TimerFire (length (timers w))] w1 = Some w2
                \<and> sockets w2 = (if ws_ctor_throws w then sockets w1
                     else sockets w1 @ [\<lparr>url_wss = https w, url_host = host w,
                            url_user = userId (notificationSocket w),
                            readyState = CONNECTING\<rparr>])
                \<and> ws (notificationSocket w2) =
                     (if ws_ctor_throws w then None else Some (length (sockets w)))))"
proof -
  let ?d = "disconnect w"
  have d: "?d = w\<lparr>sockets := (sockets w)[i := (sockets w ! i)\<lparr>readyState := CLOSING\<rparr>],
       trace := trace w @ [WsClose i],
       notificationSocket := (notificationSocket w)\<lparr>ws := None\<rparr>\<rparr>"
    by (rule disconnect_held [OF held valid opened])
  have d1: "readyState (sockets ?d ! i) = CLOSING" "ws (notificationSocket ?d) = None"
    using valid by (simp_all add: d)
  have pre: "i < length (sockets ?d)" "readyState (sockets ?d ! i) \<noteq> CLOSED"
    "reconnectAttempts (notificationSocket ?d) < 10"
    using valid below by (simp_all add: d)
  obtain w1 where s1: "step P (SockClose i) ?d = Some w1"
    and w1: "w1 = ?d\<lparr>sockets := (sockets ?d)[i := (sockets ?d ! i)\<lparr>readyState := CLOSED\<rparr>],
             notificationSocket := (notificationSocket ?d)
               \<lparr>reconnectAttempts := reconnectAttempts (notificationSocket ?d) + 1\<rparr>,
             trace := trace ?d @ [Console LogClosed,
               Console (LogReconnect (reconnectAttempts (notificationSocket ?d) + 1))],
             timers := timers ?d @ [clock ?d + 5000]\<rparr>"
    using close_event_below [OF pre, of P] by simp
  have f1: "timers w1 = timers w @ [clock w + 5000]"
    "reconnectAttempts (notificationSocket w1) = reconnectAttempts (notificationSocket w) + 1"
    "clock w1 = clock w" "ws (notificationSocket w1) = None"
    "userId (notificationSocket w1) = userId (notificationSocket w)"
    "https w1 = https w" "host w1 = host w" "ws_ctor_throws w1 = ws_ctor_throws w"
    "length (sockets w1) = length (sockets w)"
    by (simp_all add: w1 d)
  have early: "step P (TimerFire (length (timers w))) w1 = None"
    by (simp add: f1 nth_append)
  define w2 where "w2 = createConnection (w1\<lparr>clock := clock w1 + 5000, timers := timers w\<rparr>)"
  have r2: "run P [Advance 5000, TimerFire (length (timers w))] w1 = Some w2"
    by (simp add: f1 nth_append w2_def)
  have nopen: "\<not> held_open (w1\<lparr>clock := clock w1 + 5000, timers := timers w\<rparr>)"
    by (simp add: held_open_def f1)
  have f2: "sockets w2 = (if ws_ctor_throws w then sockets w1
                     else sockets w1 @ [\<lparr>url_wss = https w, url_host = host w,
                            url_user = userId (notificationSocket w),
                            readyState = CONNECTING\<rparr>])"
    "ws (notificationSocket w2) = (if ws_ctor_throws w then None else Some (length (sockets w)))"
    using nopen
    by (simp_all add: w2_def createConnection_def f1 Let_def effect_defs attemptReconnect_def)
  show ?thesis
    using d1 s1 f1(1,2) early r2 f2 by simp
qed

text \<open>On the page where Ann is logged in: after \<^verbatim>\<open>disconnect\<close>, the close event and the
  interval, the channel holds a new socket.\<close>

theorem disconnect_then_reconnect_witness:
  "readyState (sockets (disconnect session_page) ! 0) = CLOSING
   \<and> (\<exists>w1. step literal_parse (SockClose 0) (disconnect session_page) = Some w1
        \<and> timers w1 = [5000] \<and> reconnectAttempts (notificationSocket w1) = 1
        \<and> (\<exists>w2. run literal_parse [Advance 5000, TimerFire 0] w1 = Some w2
              \<and> ws (notificationSocket w2) = Some 1))"
proof -
  have h: "ws (notificationSocket session_page) = Some 0" "0 < length (sockets session_page)"
    "readyState (sockets session_page ! 0) = OPEN"
    "reconnectAttempts (notificationSocket session_page) < 10"
    by (simp_all add: session_page_fields)
  show ?thesis
    using disconnect_then_reconnect [OF h, of literal_parse]
    by (simp add: session_page_fields del: step.simps run.simps) blast
qed

section \<open>C10: login when the Identity fetch fails\<close>

text \<open>
  C10 says that whenever the token exchange succeeds and the Identity fetch fails, the new
  token stays in persistent storage. When the fetch fails with a 401 the interceptor of the
  Request Gateway deletes it: on a page just loaded, after such a login, no credential is
  stored.
\<close>

theorem login_fetch_401_token_deleted:
  "localStorage
     (snd (login \<lparr>username = ''ann@example.org'', password = ''secret''\<rparr>
             (Fulfilled \<lparr>access_token = ''new'', token_type = ''bearer''\<rparr>)
             (Rejected (Some 401))
             (loaded_page False ''localhost:3000'' None))) = None"
  by (simp add: login_def login_catch_def authAPI_login_def authAPI_getCurrentUser_def
        api_request_def response_error_def effect_defs Let_def loaded_page_def)

text \<open>
  C10 as amended: for every \<^verbatim>\<open>login\<close> call in which the token exchange succeeds and the
  Identity fetch fails, the error of the fetch is thrown to the caller, the Identity and
  the authenticated flag of the store stay as they were (an unauthenticated session stays
  unauthenticated), the loading flag is off and the channel is untouched. \<^verbatim>\<open>login\<close>
  does not roll the token back: it stays in persistent storage, unless the fetch failed
  with a 401, in which case the interceptor of the Request Gateway has deleted it.
\<close>

theorem login_fetch_failure:
  "(let res = login c (Fulfilled lr) (Rejected status) w; w1 = snd res
    in fst res = Inl (AxiosError status)
     \<and> localStorage w1 = (if status = Some 401 then None else Some (access_token lr))
     \<and> user (auth w1) = user (auth w)
     \<and> isAuthenticated (auth w1) = isAuthenticated (auth w)
     \<and> isLoading (auth w1) = False
     \<and> notificationSocket w1 = notificationSocket w \<and> sockets w1 = sockets w)"
  by (simp add: login_def login_catch_def authAPI_login_def authAPI_getCurrentUser_def
        api_request_def response_error_def effect_defs Let_def)

end
